theory Spec2Isabelle
  imports Main
begin

text \<open>
  A model of \<open>include/sim_env/SimEnv.h\<close>, the common interface of sim_env for robot
  simulators. The header implements one class, \<open>DefaultLogger\<close>, and defines the
  data types \<open>ObjectState\<close> and \<open>WorldState\<close>; \<open>Entity\<close>, \<open>Link\<close>, \<open>Joint\<close>,
  \<open>Object\<close>, \<open>Robot\<close> and \<open>World\<close> are pure virtual. The logger is translated from
  its code. The state stack of a world is modelled over the header's data types from
  the specification, and every such definition says so.
\<close>

section \<open>The diagnostic sink: \<open>Logger\<close> and \<open>DefaultLogger\<close>\<close>

text \<open>
  \<open>include/sim_env/SimEnv.h\<close>, lines 37 to 120. \<open>Logger::LogLevel\<close> is a scoped
  enumeration with the underlying values \<open>Debug=0, Info=1, Warn=2, Error=3\<close>; the
  comparison \<open>_lvl <= LogLevel::X\<close> of the source compares these underlying values.
\<close>

datatype LogLevel = Debug | Info | Warn | Error

fun level_value :: "LogLevel \<Rightarrow> int" where
  "level_value Debug = 0"
| "level_value Info = 1"
| "level_value Warn = 2"
| "level_value Error = 3"

definition level_le :: "LogLevel \<Rightarrow> LogLevel \<Rightarrow> bool" where
  "level_le a b = (level_value a \<le> level_value b)"

text \<open>
  The only data member of \<open>DefaultLogger\<close> that carries state is \<open>_lvl\<close>; the mutex
  serialises the writes of concurrent callers and holds no value of its own.
\<close>

record DefaultLogger =
  lvl :: LogLevel

text \<open>The private constructor: \<open>DefaultLogger() : _lvl(LogLevel::Info) {}\<close>.\<close>

definition DefaultLogger_new :: DefaultLogger where
  "DefaultLogger_new = \<lparr>lvl = Info\<rparr>"

text \<open>
  \<open>getInstance\<close> holds a function-local static pointer, constructed on the first call
  and returned by every call. The static is the explicit state here: \<open>None\<close> before the
  first call, \<open>Some\<close> the instance afterwards.
\<close>

definition getInstance :: "DefaultLogger option \<Rightarrow> DefaultLogger \<times> DefaultLogger option" where
  "getInstance static = (case static of
       None \<Rightarrow> (DefaultLogger_new, Some DefaultLogger_new)
     | Some pointer \<Rightarrow> (pointer, Some pointer))"

definition setLevel :: "DefaultLogger \<Rightarrow> LogLevel \<Rightarrow> DefaultLogger" where
  "setLevel logger l = logger\<lparr>lvl := l\<rparr>"

definition getLevel :: "DefaultLogger \<Rightarrow> LogLevel" where
  "getLevel logger = lvl logger"

text \<open>
  Standard output is a string, and a write appends to it. \<open>esc\<close> is the character
  \<open>\\033\<close> of the colour sequences and \<open>endl\<close> the line feed written by \<open>std::endl\<close>.
\<close>

definition esc :: char where
  "esc = CHR 0x1B"

definition endl :: string where
  "endl = [CHR 0x0A]"

definition logErr :: "DefaultLogger \<Rightarrow> string \<Rightarrow> string \<Rightarrow> string \<Rightarrow> string" where
  "logErr logger msg prefix cout =
     (if level_le (lvl logger) Error
      then cout @ esc # ''[1;31m[Error] '' @ prefix @ '' '' @ msg @ '' '' @ esc # ''[0m '' @ endl
      else cout)"

definition logInfo :: "DefaultLogger \<Rightarrow> string \<Rightarrow> string \<Rightarrow> string \<Rightarrow> string" where
  "logInfo logger msg prefix cout =
     (if level_le (lvl logger) Info
      then cout @ esc # ''[1;32m[Info] '' @ prefix @ '' '' @ msg @ '' '' @ esc # ''[0m '' @ endl
      else cout)"

definition logWarn :: "DefaultLogger \<Rightarrow> string \<Rightarrow> string \<Rightarrow> string \<Rightarrow> string" where
  "logWarn logger msg prefix cout =
     (if level_le (lvl logger) Warn
      then cout @ esc # ''[1;33m[Warning] '' @ prefix @ '' '' @ msg @ '' '' @ esc # ''[0m '' @ endl
      else cout)"

definition logDebug :: "DefaultLogger \<Rightarrow> string \<Rightarrow> string \<Rightarrow> string \<Rightarrow> string" where
  "logDebug logger msg prefix cout =
     (if level_le (lvl logger) Debug
      then cout @ esc # ''[1;35m[Debug] '' @ prefix @ '' '' @ msg @ '' '' @ esc # ''[0m '' @ endl
      else cout)"

text \<open>The \<open>switch\<close> of \<open>log\<close>, in the order of its cases.\<close>

fun log :: "DefaultLogger \<Rightarrow> string \<Rightarrow> LogLevel \<Rightarrow> string \<Rightarrow> string \<Rightarrow> string" where
  "log logger msg Info prefix cout = logInfo logger msg prefix cout"
| "log logger msg Error prefix cout = logErr logger msg prefix cout"
| "log logger msg Debug prefix cout = logDebug logger msg prefix cout"
| "log logger msg Warn prefix cout = logWarn logger msg prefix cout"

text \<open>A call produces output when standard output is not what it was before the call.\<close>

definition emits :: "(string \<Rightarrow> string) \<Rightarrow> string \<Rightarrow> bool" where
  "emits call cout = (call cout \<noteq> cout)"



section \<open>Object state and the world's state stack\<close>

text \<open>
  \<open>struct ObjectState\<close>, lines 313 to 318 of the header. \<open>Eigen::VectorXf\<close> is a list
  of scalars of type \<open>'f\<close> (the values are stored and copied, never computed with),
  \<open>Eigen::Affine3f\<close> the list of the coefficients of the transform, and
  \<open>Eigen::VectorXi\<close> a list of integers.
\<close>

record 'f ObjectState =
  dof_positions :: "'f list"
  dof_velocities :: "'f list"
  pose :: "'f list"
  active_dofs :: "int list"

text \<open>\<open>typedef std::map<std::string, ObjectState> WorldState\<close>, line 575.\<close>

type_synonym 'f WorldState = "string \<rightharpoonup> 'f ObjectState"

text \<open>
  Modelled from the spec: the data behind the pure virtual class \<open>Object\<close>, which the
  header declares without any member. Section 3 of the spec gives an object its unique
  name, \<open>numBaseDOFs\<close>, its joints (\<open>numDOFs = numBaseDOFs + numJoints\<close>), and as its
  mutable state the four components that \<open>ObjectState\<close> snapshots: positions and
  velocities of all DOFs, the world-frame pose and the active-DOF set.
\<close>

record 'f Object =
  name :: string
  numBaseDOFs :: nat
  numJoints :: nat
  positions :: "'f list"
  velocities :: "'f list"
  transform :: "'f list"
  activeDOFs :: "int list"

text \<open>Modelled from the spec: \<open>Object::getNumDOFs\<close>, \<open>numDOFs = numBaseDOFs + numJoints\<close>.\<close>

definition getNumDOFs :: "'f Object \<Rightarrow> nat" where
  "getNumDOFs obj = numBaseDOFs obj + numJoints obj"

text \<open>Modelled from the spec: \<open>Object::getActiveDOFs\<close>, the current active-DOF set.\<close>

definition getActiveDOFs :: "'f Object \<Rightarrow> int list" where
  "getActiveDOFs obj = activeDOFs obj"

text \<open>Modelled from the spec: \<open>Entity::getTransform\<close>, the world-frame pose.\<close>

definition getTransform :: "'f Object \<Rightarrow> 'f list" where
  "getTransform obj = transform obj"

text \<open>
  Modelled from the spec: the default of every accessor that takes an optional DOF-index
  list (section 4.1): an empty list stands for the current active-DOF set.
\<close>

definition resolve_indices :: "'f Object \<Rightarrow> int list \<Rightarrow> int list" where
  "resolve_indices obj indices = (if indices = [] then activeDOFs obj else indices)"

text \<open>
  Modelled from the spec: a well-formed index list lies in \<open>[0, numDOFs)\<close>. Section 7
  makes a malformed list a precondition violation that may be fatal; the accessors below
  return \<open>None\<close> for it.
\<close>

definition valid_indices :: "'f Object \<Rightarrow> int list \<Rightarrow> bool" where
  "valid_indices obj indices = list_all (\<lambda>i. 0 \<le> i \<and> i < int (getNumDOFs obj)) indices"

text \<open>
  Modelled from the spec: reading a vector at an index list; the result follows the
  order of the list (section 4.1).
\<close>

definition select :: "'f list \<Rightarrow> int list \<Rightarrow> 'f list option" where
  "select xs indices =
     (if list_all (\<lambda>i. 0 \<le> i \<and> nat i < length xs) indices
      then Some (map (\<lambda>i. xs ! nat i) indices) else None)"

text \<open>Modelled from the spec: writing values at the indices of a list, in its order.\<close>

fun assign :: "'f list \<Rightarrow> (int \<times> 'f) list \<Rightarrow> 'f list" where
  "assign xs [] = xs"
| "assign xs ((i, v) # ivs) = assign (xs[nat i := v]) ivs"

text \<open>Modelled from the spec: \<open>Object::getDOFPositions\<close> (section 4.1).\<close>

definition getDOFPositions :: "'f Object \<Rightarrow> int list \<Rightarrow> 'f list option" where
  "getDOFPositions obj indices = select (positions obj) (resolve_indices obj indices)"

text \<open>Modelled from the spec: \<open>Object::getDOFVelocities\<close> (section 4.1).\<close>

definition getDOFVelocities :: "'f Object \<Rightarrow> int list \<Rightarrow> 'f list option" where
  "getDOFVelocities obj indices = select (velocities obj) (resolve_indices obj indices)"

text \<open>
  Modelled from the spec: \<open>Object::setDOFPositions\<close> (section 4.1); the values are
  consumed in the order of the index list.
\<close>

definition setDOFPositions :: "'f Object \<Rightarrow> 'f list \<Rightarrow> int list \<Rightarrow> 'f Object option" where
  "setDOFPositions obj values indices =
     (let idx = resolve_indices obj indices in
      if length values = length idx \<and> valid_indices obj idx
      then Some (obj\<lparr>positions := assign (positions obj) (zip idx values)\<rparr>)
      else None)"

text \<open>Modelled from the spec: \<open>Object::setDOFVelocities\<close> (section 4.1).\<close>

definition setDOFVelocities :: "'f Object \<Rightarrow> 'f list \<Rightarrow> int list \<Rightarrow> 'f Object option" where
  "setDOFVelocities obj values indices =
     (let idx = resolve_indices obj indices in
      if length values = length idx \<and> valid_indices obj idx
      then Some (obj\<lparr>velocities := assign (velocities obj) (zip idx values)\<rparr>)
      else None)"

text \<open>Modelled from the spec: \<open>Object::setTransform\<close>, the new world-frame pose.\<close>

definition setTransform :: "'f Object \<Rightarrow> 'f list \<Rightarrow> 'f Object" where
  "setTransform obj tf = obj\<lparr>transform := tf\<rparr>"

text \<open>
  Modelled from the spec: \<open>Object::setActiveDOFs\<close> replaces the active set, an ordered,
  duplicate-free subset of \<open>[0, numDOFs)\<close> (section 3).
\<close>

definition setActiveDOFs :: "'f Object \<Rightarrow> int list \<Rightarrow> 'f Object option" where
  "setActiveDOFs obj indices =
     (if valid_indices obj indices \<and> distinct indices
      then Some (obj\<lparr>activeDOFs := indices\<rparr>) else None)"

text \<open>
  Modelled from the spec: \<open>Object::getState\<close> and \<open>Object::setState\<close>, pure virtual in
  the header. They operate over all DOFs regardless of the active set (section 4.1), on
  the four members of \<open>ObjectState\<close>.
\<close>

definition getState :: "'f Object \<Rightarrow> 'f ObjectState" where
  "getState obj = \<lparr>dof_positions = positions obj, dof_velocities = velocities obj,
     pose = transform obj, active_dofs = activeDOFs obj\<rparr>"

definition setState :: "'f Object \<Rightarrow> 'f ObjectState \<Rightarrow> 'f Object" where
  "setState obj object_state = obj\<lparr>positions := dof_positions object_state,
     velocities := dof_velocities object_state, transform := pose object_state,
     activeDOFs := active_dofs object_state\<rparr>"

text \<open>
  Modelled from the spec: the data behind the pure virtual class \<open>World\<close> that the state
  stack needs (section 3): the registry of objects and robots by unique name and the
  LIFO stack of \<open>WorldState\<close> snapshots, its top at the head of the list.
\<close>

record 'f World =
  registry :: "string \<rightharpoonup> 'f Object"
  state_stack :: "'f WorldState list"

text \<open>
  Modelled from the spec: \<open>World::getWorldState\<close>, the \<open>ObjectState\<close> of every registered
  object or robot under its name.
\<close>

definition getWorldState :: "'f World \<Rightarrow> 'f WorldState" where
  "getWorldState w = (\<lambda>n. map_option getState (registry w n))"

text \<open>
  Modelled from the spec: applying a \<open>WorldState\<close> "to the corresponding named objects"
  (section 4.4): an object named in the state is set to the state saved for it.
\<close>

definition applyState ::
  "(string \<rightharpoonup> 'f Object) \<Rightarrow> 'f WorldState \<Rightarrow> (string \<rightharpoonup> 'f Object)" where
  "applyState reg state = (\<lambda>n. case reg n of
       None \<Rightarrow> None
     | Some obj \<Rightarrow> (case state n of None \<Rightarrow> Some obj | Some s \<Rightarrow> Some (setState obj s)))"

text \<open>
  Modelled from the spec: \<open>World::saveState\<close> "pushes the current WorldState (covering
  every registered Object/Robot) onto the stack" (section 4.4).
\<close>

definition saveState :: "'f World \<Rightarrow> 'f World" where
  "saveState w = w\<lparr>state_stack := getWorldState w # state_stack w\<rparr>"

text \<open>
  Modelled from the spec: \<open>World::restoreState\<close> "pops the top entry and applies it to the
  corresponding named objects, returning false (no mutation) if the stack is empty"
  (section 4.4); the header documents its result as "true iff there was a state to
  restore to".
\<close>

definition restoreState :: "'f World \<Rightarrow> bool \<times> 'f World" where
  "restoreState w = (case state_stack w of
       [] \<Rightarrow> (False, w)
     | state # rest \<Rightarrow>
         (True, w\<lparr>registry := applyState (registry w) state, state_stack := rest\<rparr>))"

text \<open>
  Modelled from the spec: the calls by which a planner changes the state of a registered
  object, each on the object of the given name. \<open>SetState\<close> can write any values into
  the four state components at once.
\<close>

datatype 'f mutation =
    SetDOFPositions string "'f list" "int list"
  | SetDOFVelocities string "'f list" "int list"
  | SetTransform string "'f list"
  | SetActiveDOFs string "int list"
  | SetState string "'f ObjectState"

fun target :: "'f mutation \<Rightarrow> string" where
  "target (SetDOFPositions n values indices) = n"
| "target (SetDOFVelocities n values indices) = n"
| "target (SetTransform n tf) = n"
| "target (SetActiveDOFs n indices) = n"
| "target (SetState n object_state) = n"

fun mutate_object :: "'f Object \<Rightarrow> 'f mutation \<Rightarrow> 'f Object option" where
  "mutate_object obj (SetDOFPositions n values indices) = setDOFPositions obj values indices"
| "mutate_object obj (SetDOFVelocities n values indices) = setDOFVelocities obj values indices"
| "mutate_object obj (SetTransform n tf) = Some (setTransform obj tf)"
| "mutate_object obj (SetActiveDOFs n indices) = setActiveDOFs obj indices"
| "mutate_object obj (SetState n object_state) = Some (setState obj object_state)"

text \<open>
  Modelled from the spec: a mutation looks its object up by name. \<open>getObject\<close> returns a null pointer for a name
  that is not registered, and a call through it has no result: \<open>None\<close>, as for a
  malformed index list.
\<close>

definition mutate :: "'f World \<Rightarrow> 'f mutation \<Rightarrow> 'f World option" where
  "mutate w m = (case registry w (target m) of
       None \<Rightarrow> None
     | Some obj \<Rightarrow> (case mutate_object obj m of
           None \<Rightarrow> None
         | Some obj' \<Rightarrow> Some (w\<lparr>registry := (registry w)(target m \<mapsto> obj')\<rparr>)))"

fun mutate_all :: "'f World \<Rightarrow> 'f mutation list \<Rightarrow> 'f World option" where
  "mutate_all w [] = Some w"
| "mutate_all w (m # ms) = (case mutate w m of None \<Rightarrow> None | Some w' \<Rightarrow> mutate_all w' ms)"

text \<open>
  Two objects that differ at most in the four state components, and two registries with
  the same names whose objects differ at most so.
\<close>

definition same_static :: "'f Object \<Rightarrow> 'f Object \<Rightarrow> bool" where
  "same_static a b =
     (name a = name b \<and> numBaseDOFs a = numBaseDOFs b \<and> numJoints a = numJoints b)"

definition same_registry ::
  "(string \<rightharpoonup> 'f Object) \<Rightarrow> (string \<rightharpoonup> 'f Object) \<Rightarrow> bool" where
  "same_registry r r' = (\<forall>n. rel_option same_static (r n) (r' n))"

text \<open>A small world for concrete runs: one movable box with three base DOFs.\<close>

definition box :: "int Object" where
  "box = \<lparr>name = ''box'', numBaseDOFs = 3, numJoints = 0, positions = [0, 0, 0],
     velocities = [0, 0, 0], transform = [1, 0, 0, 0, 1, 0, 0, 0, 1],
     activeDOFs = [0, 1, 2]\<rparr>"

definition box_world :: "int World" where
  "box_world = \<lparr>registry = [''box'' \<mapsto> box], state_stack = []\<rparr>"

definition box_moves :: "int mutation list" where
  "box_moves = [SetDOFPositions ''box'' [7, 8] [2, 0], SetTransform ''box'' [0, 1, 0, 1, 0, 0, 0, 0, 1]]"


section \<open>Properties of the diagnostic sink\<close>

lemma emits_logErr: "emits (logErr logger msg prefix) cout = level_le (lvl logger) Error"
  by (simp add: emits_def logErr_def)

lemma emits_logInfo: "emits (logInfo logger msg prefix) cout = level_le (lvl logger) Info"
  by (simp add: emits_def logInfo_def)

lemma emits_logWarn: "emits (logWarn logger msg prefix) cout = level_le (lvl logger) Warn"
  by (simp add: emits_def logWarn_def)

lemma emits_logDebug: "emits (logDebug logger msg prefix) cout = level_le (lvl logger) Debug"
  by (simp add: emits_def logDebug_def)

lemma emits_log: "emits (log logger msg level prefix) cout = level_le (lvl logger) level"
  by (cases level) (simp_all add: emits_def logErr_def logInfo_def logWarn_def logDebug_def)

lemma level_order: "level_value Debug < level_value Info \<and> level_value Info < level_value Warn
    \<and> level_value Warn < level_value Error"
  by simp

text \<open>
  Claim C9. For every message, prefix, severity and threshold \<open>t\<close> set with \<open>setLevel\<close>,
  and whatever standard output holds: \<open>log(msg, level)\<close> writes exactly when the
  threshold is at most the severity \<open>level\<close>, and \<open>logErr\<close>, \<open>logInfo\<close>, \<open>logWarn\<close>,
  \<open>logDebug\<close> write exactly when the threshold is at most \<open>Error\<close>, \<open>Info\<close>, \<open>Warn\<close>,
  \<open>Debug\<close>; the severities are ordered \<open>Debug < Info < Warn < Error\<close>.
\<close>

theorem log_emits_iff_severity_ge_threshold:
  "emits (log (setLevel logger t) msg level prefix) cout = (level_value t \<le> level_value level)
   \<and> emits (logErr (setLevel logger t) msg prefix) cout = (level_value t \<le> level_value Error)
   \<and> emits (logInfo (setLevel logger t) msg prefix) cout = (level_value t \<le> level_value Info)
   \<and> emits (logWarn (setLevel logger t) msg prefix) cout = (level_value t \<le> level_value Warn)
   \<and> emits (logDebug (setLevel logger t) msg prefix) cout = (level_value t \<le> level_value Debug)
   \<and> level_value Debug < level_value Info
   \<and> level_value Info < level_value Warn
   \<and> level_value Warn < level_value Error"
  by (simp add: emits_log emits_logErr emits_logInfo emits_logWarn emits_logDebug
      setLevel_def level_le_def)

theorem log_emits_iff_severity_ge_threshold_witness:
  "emits (log (setLevel DefaultLogger_new Warn) ''collision'' Error ''world'') ''''
   \<and> emits (log (setLevel DefaultLogger_new Warn) ''collision'' Warn ''world'') ''''
   \<and> \<not> emits (log (setLevel DefaultLogger_new Warn) ''collision'' Info ''world'') ''''
   \<and> \<not> emits (log (setLevel DefaultLogger_new Warn) ''collision'' Debug ''world'') ''''
   \<and> log (setLevel DefaultLogger_new Warn) ''collision'' Error ''world'' ''''
       = esc # ''[1;31m[Error] world collision '' @ esc # ''[0m '' @ endl"
  using log_emits_iff_severity_ge_threshold[of DefaultLogger_new Warn "''collision''" Error "''world''" "''''"]
    log_emits_iff_severity_ge_threshold[of DefaultLogger_new Warn "''collision''" Warn "''world''" "''''"]
    log_emits_iff_severity_ge_threshold[of DefaultLogger_new Warn "''collision''" Info "''world''" "''''"]
    log_emits_iff_severity_ge_threshold[of DefaultLogger_new Warn "''collision''" Debug "''world''" "''''"]
  by (simp add: logErr_def setLevel_def level_le_def)

text \<open>
  Claim C10. The instance returned by the first \<open>getInstance()\<close> call, before any
  \<open>setLevel\<close>, has the threshold \<open>Info\<close>: \<open>getLevel()\<close> returns \<open>Info\<close>, \<open>logDebug\<close>
  writes nothing, and \<open>logInfo\<close>, \<open>logWarn\<close> and \<open>logErr\<close> write.
\<close>

theorem fresh_logger_threshold_info:
  "getLevel (fst (getInstance None)) = Info
   \<and> \<not> emits (logDebug (fst (getInstance None)) msg prefix) cout
   \<and> logDebug (fst (getInstance None)) msg prefix cout = cout
   \<and> emits (logInfo (fst (getInstance None)) msg prefix) cout
   \<and> emits (logWarn (fst (getInstance None)) msg prefix) cout
   \<and> emits (logErr (fst (getInstance None)) msg prefix) cout"
  by (simp add: emits_logErr emits_logInfo emits_logWarn emits_logDebug
      getInstance_def DefaultLogger_new_def getLevel_def level_le_def logDebug_def)


theorem fresh_logger_threshold_info_witness:
  "getLevel (fst (getInstance None)) = Info
   \<and> logDebug (fst (getInstance None)) ''step'' ''world'' ''ready'' = ''ready''
   \<and> logInfo (fst (getInstance None)) ''step'' ''world'' ''''
       = esc # ''[1;32m[Info] world step '' @ esc # ''[0m '' @ endl
   \<and> emits (logWarn (fst (getInstance None)) ''step'' ''world'') ''''
   \<and> emits (logErr (fst (getInstance None)) ''step'' ''world'') ''''"
  using fresh_logger_threshold_info[of "''step''" "''world''" "''ready''"]
    fresh_logger_threshold_info[of "''step''" "''world''" "''''"]
  by (simp add: logInfo_def getInstance_def DefaultLogger_new_def level_le_def)


section \<open>Properties of the state stack\<close>

lemma setState_restores: "same_static a b \<Longrightarrow> setState b (getState a) = a"
  by (cases a, cases b) (simp add: same_static_def setState_def getState_def)

lemma same_static_refl: "same_static a a"
  by (simp add: same_static_def)

lemma same_static_trans: "same_static a b \<Longrightarrow> same_static b c \<Longrightarrow> same_static a c"
  by (simp add: same_static_def)

lemma mutate_object_static: "mutate_object obj m = Some obj' \<Longrightarrow> same_static obj obj'"
  by (cases m)
    (auto simp: same_static_def setDOFPositions_def setDOFVelocities_def setTransform_def
      setActiveDOFs_def setState_def Let_def split: if_splits)

lemma same_registry_refl: "same_registry r r"
  by (simp add: same_registry_def option.rel_refl same_static_refl)

lemma same_registry_update:
  "r n = Some a \<Longrightarrow> same_static a b \<Longrightarrow> same_registry r (r(n \<mapsto> b))"
  by (simp add: same_registry_def option.rel_refl same_static_refl)

lemma same_registry_trans:
  assumes "same_registry a b" and "same_registry b c"
  shows "same_registry a c"
  unfolding same_registry_def
proof
  fix n
  from assms have "rel_option same_static (a n) (b n)" and "rel_option same_static (b n) (c n)"
    by (simp_all add: same_registry_def)
  then show "rel_option same_static (a n) (c n)"
    by (cases "a n"; cases "b n"; cases "c n") (auto intro: same_static_trans)
qed

text \<open>A mutation leaves the stack alone, and the registry's names and static data.\<close>

lemma mutate_preserves:
  assumes "mutate w m = Some w'"
  shows "state_stack w' = state_stack w \<and> same_registry (registry w) (registry w')"
proof (cases "registry w (target m)")
  case None
  with assms show ?thesis by (simp add: mutate_def)
next
  case found: (Some obj)
  show ?thesis
  proof (cases "mutate_object obj m")
    case None
    with found assms show ?thesis by (simp add: mutate_def)
  next
    case (Some obj')
    with found assms have "w' = w\<lparr>registry := (registry w)(target m \<mapsto> obj')\<rparr>"
      by (simp add: mutate_def)
    moreover have "same_registry (registry w) ((registry w)(target m \<mapsto> obj'))"
      using found mutate_object_static[OF Some] by (rule same_registry_update)
    ultimately show ?thesis by simp
  qed
qed

lemma mutate_all_preserves:
  "mutate_all w ms = Some w' \<Longrightarrow>
     state_stack w' = state_stack w \<and> same_registry (registry w) (registry w')"
proof (induction ms arbitrary: w)
  case Nil
  then show ?case by (simp add: same_registry_refl)
next
  case (Cons m ms)
  then obtain w1 where 1: "mutate w m = Some w1" and 2: "mutate_all w1 ms = Some w'"
    by (auto split: option.splits)
  from Cons.IH[OF 2] mutate_preserves[OF 1] show ?case
    by (auto intro: same_registry_trans)
qed

text \<open>Applying the snapshot of a registry to a mutated copy gives the registry back.\<close>

lemma applyState_restores:
  assumes "same_registry r r'"
  shows "applyState r' (\<lambda>n. map_option getState (r n)) = r"
proof (rule ext)
  fix n
  from assms have "rel_option same_static (r n) (r' n)" by (simp add: same_registry_def)
  then show "applyState r' (\<lambda>n. map_option getState (r n)) n = r n"
    by (cases "r n"; cases "r' n") (simp_all add: applyState_def setState_restores)
qed

text \<open>
  Claim C3. For every world \<open>w\<close> and every sequence \<open>ms\<close> of state mutations of its
  objects that runs through after \<open>saveState()\<close>, giving \<open>w'\<close>: \<open>restoreState()\<close> on \<open>w'\<close>
  returns true and gives back \<open>w\<close> itself, so the state of every registered object is
  the one it had at the save; and when the stack was empty before the save, a further
  \<open>restoreState()\<close> returns false and changes nothing.
\<close>

theorem save_mutate_restore:
  assumes "mutate_all (saveState w) ms = Some w'"
  shows "restoreState w' = (True, w)
    \<and> getWorldState (snd (restoreState w')) = getWorldState w
    \<and> (state_stack w = [] \<longrightarrow>
         restoreState (snd (restoreState w')) = (False, snd (restoreState w')))"
proof -
  from mutate_all_preserves[OF assms]
  have st: "state_stack w' = getWorldState w # state_stack w"
    and rg: "same_registry (registry w) (registry w')"
    by (simp_all add: saveState_def)
  have "applyState (registry w') (getWorldState w) = registry w"
    using applyState_restores[OF rg] by (simp add: getWorldState_def)
  then have r: "restoreState w' = (True, w)"
    by (simp add: restoreState_def st)
  then show ?thesis by (simp add: restoreState_def)
qed

lemma box_moves_run:
  "mutate_all (saveState box_world) box_moves =
     Some \<lparr>registry = [''box'' \<mapsto> box\<lparr>positions := [8, 0, 7],
                transform := [0, 1, 0, 1, 0, 0, 0, 0, 1]\<rparr>],
           state_stack = [getWorldState box_world]\<rparr>"
  by (simp add: box_world_def box_moves_def box_def saveState_def mutate_def
      setDOFPositions_def setTransform_def resolve_indices_def valid_indices_def getNumDOFs_def)

theorem save_mutate_restore_witness:
  "mutate_all (saveState box_world) box_moves \<noteq> None
   \<and> map_option positions (registry (the (mutate_all (saveState box_world) box_moves)) ''box'')
       = Some [8, 0, 7]
   \<and> restoreState (the (mutate_all (saveState box_world) box_moves)) = (True, box_world)
   \<and> map_option positions (registry box_world ''box'') = Some [0, 0, 0]
   \<and> state_stack box_world = []
   \<and> restoreState box_world = (False, box_world)"
proof -
  note r = save_mutate_restore[OF box_moves_run]
  have run: "mutate_all (saveState box_world) box_moves \<noteq> None"
    by (simp add: box_moves_run)
  have moved: "map_option positions
      (registry (the (mutate_all (saveState box_world) box_moves)) ''box'') = Some [8, 0, 7]"
    by (simp add: box_moves_run)
  have restored: "restoreState (the (mutate_all (saveState box_world) box_moves))
      = (True, box_world)"
    using r by (simp add: box_moves_run)
  have before: "map_option positions (registry box_world ''box'') = Some [0, 0, 0]"
    by (simp add: box_world_def box_def)
  have empty: "state_stack box_world = []"
    by (simp add: box_world_def)
  have again: "restoreState box_world = (False, box_world)"
    using r empty by (metis snd_conv)
  from run moved restored before empty again show ?thesis
    by blast
qed

text \<open>
  Claim C7. For every object, \<open>setState(getState())\<close> gives the object back unchanged:
  the all-DOF positions and velocities (and so the positions and velocities read at any
  index list), the world-frame pose and the active-DOF set are what they were.
\<close>

theorem setState_getState_unchanged:
  "setState obj (getState obj) = obj
   \<and> getState (setState obj (getState obj)) = getState obj
   \<and> positions (setState obj (getState obj)) = positions obj
   \<and> velocities (setState obj (getState obj)) = velocities obj
   \<and> getDOFPositions (setState obj (getState obj)) indices = getDOFPositions obj indices
   \<and> getDOFVelocities (setState obj (getState obj)) indices = getDOFVelocities obj indices
   \<and> getTransform (setState obj (getState obj)) = getTransform obj
   \<and> getActiveDOFs (setState obj (getState obj)) = getActiveDOFs obj"
  by (simp add: setState_def getState_def)
theorem setState_getState_unchanged_witness:
  "setState box (getState box) = box
   \<and> getDOFPositions (setState box (getState box)) [] = Some [0, 0, 0]
   \<and> getDOFPositions (setState box (getState box)) [2, 0] = getDOFPositions box [2, 0]
   \<and> getTransform (setState box (getState box)) = [1, 0, 0, 0, 1, 0, 0, 0, 1]
   \<and> getActiveDOFs (setState box (getState box)) = [0, 1, 2]"
  using setState_getState_unchanged[of box "[]"] setState_getState_unchanged[of box "[2, 0]"]
  by (simp add: box_def getDOFPositions_def select_def resolve_indices_def getTransform_def
      getActiveDOFs_def)

end
